theory Spec2Isabelle
  imports Main "HOL-Library.AList" "HOL-Library.Char_ord" "HOL-Library.List_Lexorder"
begin

section \<open>Go values\<close>

text \<open>
  The package \<open>utils\<close> (file \<open>http_client.go\<close>) is a fluent builder for one outbound
  HTTP request with optional retry.  Its functions are embedded here as HOL functions.
  What Go does beyond returning a value is made explicit:
  \<^item> an \<open>error\<close> is a value of the datatype \<open>error\<close>; \<open>nil\<close> is \<open>None\<close> of an option;
  \<^item> a run-time panic (assignment to an entry of a nil map, call of a nil function value)
    is the result \<open>Panic\<close>;
  \<^item> the calls to the transport, to the retry rule and to \<open>time.Sleep\<close> are recorded, in
    order, in a list of events returned beside the result;
  \<^item> a setter, which mutates the builder behind the pointer and returns that pointer,
    is a function from the builder's state to its new state.
\<close>

datatype error = Error string | Wrapped error string

text \<open>\<open>errors.Wrap(err, message)\<close> of github.com/pkg/errors, for a non-nil \<open>err\<close>.\<close>

definition errors_Wrap :: "error \<Rightarrow> string \<Rightarrow> error" where
  "errors_Wrap err message = Wrapped err message"

datatype panic = NilMapAssignment | NilFuncCall

datatype 'a outcome = Return 'a | Panic panic

text \<open>
  A Go map with string keys: \<open>None\<close> is the nil map, \<open>Some kvs\<close> a map whose entries are
  the pairs of \<open>kvs\<close> (keys distinct).  The order of \<open>kvs\<close> stands for the order in which
  a \<open>range\<close> statement yields the entries, which Go leaves unspecified.
\<close>

type_synonym 'v gomap = "(string \<times> 'v) list option"

definition make_map :: "'v gomap" where
  "make_map = Some []"

text \<open>\<open>m[k]\<close> read: \<open>None\<close> is the zero value Go yields for a missing key or a nil map.\<close>

definition map_index :: "'v gomap \<Rightarrow> string \<Rightarrow> 'v option" where
  "map_index m k = (case m of None \<Rightarrow> None | Some kvs \<Rightarrow> map_of kvs k)"

text \<open>\<open>m[k] = v\<close>: panics on the nil map.\<close>

definition map_assign :: "'v gomap \<Rightarrow> string \<Rightarrow> 'v \<Rightarrow> 'v gomap outcome" where
  "map_assign m k v =
     (case m of
        None \<Rightarrow> Panic NilMapAssignment
      | Some kvs \<Rightarrow> Return (Some (AList.update k v kvs)))"

text \<open>\<open>for name, values := range m\<close>: no iteration on the nil map.\<close>

definition map_range :: "'v gomap \<Rightarrow> (string \<times> 'v) list" where
  "map_range m = (case m of None \<Rightarrow> [] | Some kvs \<Rightarrow> kvs)"

section \<open>The builder\<close>

record Response =
  StatusCode :: int
  Header :: "string list gomap"
  Body :: string

text \<open>
  The struct \<open>Client\<close>.  The retry rule takes the builder itself, so the record is
  declared in two steps: the fields the rule can read, then the rule.  Durations are
  \<open>time.Duration\<close> values (nanoseconds); \<open>records\<close> is an \<open>interface{}\<close>, of any type
  \<open>'r\<close>, \<open>None\<close> when nil.  The rule is a function of the builder's fields and of the
  attempt's outcome.
\<close>

record 'r Client_fields =
  "method" :: string
  url :: string
  timeout :: int
  retryAttempts :: int
  retryDelay :: int
  param :: "string gomap"
  query :: "string list gomap"
  header :: "string list gomap"
  form :: "string list gomap"
  body :: string
  records :: "'r option"

record 'r Client = "'r Client_fields" +
  retryRuleF :: "('r Client_fields \<Rightarrow> Response option \<Rightarrow> error option \<Rightarrow> bool) option"

definition Second :: int where
  "Second = 1000000000"

definition NewRest :: "string \<Rightarrow> string \<Rightarrow> 'r Client" where
  "NewRest m u =
     \<lparr> method = m, url = u, timeout = 2 * Second, retryAttempts = 0, retryDelay = 0,
       param = make_map, query = make_map, header = make_map, form = make_map,
       body = [], records = None, retryRuleF = None \<rparr>"

text \<open>
  \<open>add(current, values...)\<close>: \<open>Sprint\<close> is \<open>fmt.Sprintf("%v", _)\<close> on the values' type.
  \<open>current\<close> is \<open>None\<close> when the slice is nil.
\<close>

definition add :: "('v \<Rightarrow> string) \<Rightarrow> string list option \<Rightarrow> 'v list \<Rightarrow> string list" where
  "add Sprint current vs =
     foldl (\<lambda>cur v. cur @ [Sprint v]) (case current of None \<Rightarrow> [] | Some xs \<Rightarrow> xs) vs"

definition Timeout :: "int \<Rightarrow> 'r Client \<Rightarrow> 'r Client" where
  "Timeout t c = c\<lparr>timeout := t\<rparr>"

definition Retry ::
  "int \<Rightarrow> int \<Rightarrow> ('r Client_fields \<Rightarrow> Response option \<Rightarrow> error option \<Rightarrow> bool) option
     \<Rightarrow> 'r Client \<Rightarrow> 'r Client" where
  "Retry attempts delay ruleF c =
     c\<lparr>retryAttempts := attempts, retryDelay := delay, retryRuleF := ruleF\<rparr>"

definition Param :: "string gomap \<Rightarrow> 'r Client \<Rightarrow> 'r Client" where
  "Param p c = c\<lparr>param := p\<rparr>"

definition AddParam :: "('v \<Rightarrow> string) \<Rightarrow> string \<Rightarrow> 'v \<Rightarrow> 'r Client \<Rightarrow> 'r Client outcome" where
  "AddParam Sprint name v c =
     (case map_assign (param c) name (Sprint v) of
        Panic p \<Rightarrow> Panic p
      | Return m \<Rightarrow> Return (c\<lparr>param := m\<rparr>))"

definition Query :: "string list gomap \<Rightarrow> 'r Client \<Rightarrow> 'r Client" where
  "Query q c = c\<lparr>query := q\<rparr>"

definition AddQuery :: "('v \<Rightarrow> string) \<Rightarrow> string \<Rightarrow> 'v list \<Rightarrow> 'r Client \<Rightarrow> 'r Client outcome" where
  "AddQuery Sprint name vs c =
     (case map_assign (query c) name (add Sprint (map_index (query c) name) vs) of
        Panic p \<Rightarrow> Panic p
      | Return m \<Rightarrow> Return (c\<lparr>query := m\<rparr>))"

definition Header_set :: "string list gomap \<Rightarrow> 'r Client \<Rightarrow> 'r Client" where
  "Header_set h c = c\<lparr>header := h\<rparr>"

definition AddHeader :: "('v \<Rightarrow> string) \<Rightarrow> string \<Rightarrow> 'v list \<Rightarrow> 'r Client \<Rightarrow> 'r Client outcome" where
  "AddHeader Sprint name vs c =
     (case map_assign (header c) name (add Sprint (map_index (header c) name) vs) of
        Panic p \<Rightarrow> Panic p
      | Return m \<Rightarrow> Return (c\<lparr>header := m\<rparr>))"

definition Form :: "string list gomap \<Rightarrow> 'r Client \<Rightarrow> 'r Client" where
  "Form f c = c\<lparr>form := f\<rparr>"

definition AddForm :: "('v \<Rightarrow> string) \<Rightarrow> string \<Rightarrow> 'v list \<Rightarrow> 'r Client \<Rightarrow> 'r Client outcome" where
  "AddForm Sprint name vs c =
     (case map_assign (form c) name (add Sprint (map_index (form c) name) vs) of
        Panic p \<Rightarrow> Panic p
      | Return m \<Rightarrow> Return (c\<lparr>form := m\<rparr>))"

definition Body_set :: "string \<Rightarrow> 'r Client \<Rightarrow> 'r Client" where
  "Body_set b c = c\<lparr>body := b\<rparr>"

definition Records :: "'r option \<Rightarrow> 'r Client \<Rightarrow> 'r Client" where
  "Records r c = c\<lparr>records := r\<rparr>"

section \<open>The standard library, as far as \<open>send\<close> uses it\<close>

text \<open>
  \<open>url.Parse\<close>, \<open>(*URL).String\<close>, \<open>textproto.CanonicalMIMEHeaderKey\<close> and the round
  trip \<open>(*http.Client).Do\<close> are parameters of the model (the record \<open>env\<close>); every
  general theorem holds for each choice of them.  A parsed URL keeps its query string in
  the field \<open>RawQuery\<close>, the one field \<open>send\<close> assigns; its other components are of a
  type \<open>'u\<close>.  \<open>Client_Do env n t req\<close> is what the transport answers to the request
  \<open>req\<close> under the timeout \<open>t\<close> when \<open>n\<close> round trips went before: an error, or a
  status, headers and a body stream.  The stream is given by what \<open>ioutil.ReadAll\<close>
  returns on it: the bytes read and the read error, if any.
\<close>

record 'u URL =
  parts :: 'u
  RawQuery :: string

record 'u Request =
  req_Method :: string
  req_URL :: "'u URL"
  req_Header :: "string list gomap"
  req_Form :: "string list gomap"
  req_Body :: string

record http_Response =
  res_StatusCode :: int
  res_Header :: "string list gomap"
  res_Body :: "string \<times> error option"

record 'u env =
  url_Parse :: "string \<Rightarrow> error + 'u URL"
  URL_String :: "'u URL \<Rightarrow> string"
  CanonicalMIMEHeaderKey :: "string \<Rightarrow> string"
  Client_Do :: "nat \<Rightarrow> int \<Rightarrow> 'u Request \<Rightarrow> error + http_Response"

definition ioutil_ReadAll :: "string \<times> error option \<Rightarrow> string \<times> error option" where
  "ioutil_ReadAll stream = stream"

text \<open>\<open>url.Values.Add\<close>: \<open>v[key] = append(v[key], value)\<close>.\<close>

definition Values_Add :: "string list gomap \<Rightarrow> string \<Rightarrow> string \<Rightarrow> string list gomap outcome" where
  "Values_Add v key x =
     map_assign v key ((case map_index v key of None \<Rightarrow> [] | Some xs \<Rightarrow> xs) @ [x])"

text \<open>\<open>http.Header.Add\<close>: as \<open>Values.Add\<close>, under the canonical form of the key.\<close>

definition Header_Add ::
  "'u env \<Rightarrow> string list gomap \<Rightarrow> string \<Rightarrow> string \<Rightarrow> string list gomap outcome" where
  "Header_Add env h key x = Values_Add h (CanonicalMIMEHeaderKey env key) x"

text \<open>\<open>url.QueryEscape\<close>: \<open>shouldEscape\<close> in the mode \<open>encodeQueryComponent\<close>.\<close>

definition isAlnum :: "char \<Rightarrow> bool" where
  "isAlnum c =
     (CHR ''a'' \<le> c \<and> c \<le> CHR ''z'' \<or> CHR ''A'' \<le> c \<and> c \<le> CHR ''Z''
      \<or> CHR ''0'' \<le> c \<and> c \<le> CHR ''9'')"

definition shouldEscape :: "char \<Rightarrow> bool" where
  "shouldEscape c = (if isAlnum c then False else if c \<in> set ''-_.~'' then False else True)"

definition upperhex :: string where
  "upperhex = ''0123456789ABCDEF''"

definition escape_byte :: "char \<Rightarrow> string" where
  "escape_byte c =
     (if c = CHR '' '' then ''+''
      else if shouldEscape c
        then [CHR ''%'', upperhex ! (of_char c div 16), upperhex ! (of_char c mod 16)]
      else [c])"

definition QueryEscape :: "string \<Rightarrow> string" where
  "QueryEscape s = concat (map escape_byte s)"

text \<open>
  \<open>url.Values.Encode\<close>: the keys sorted, and for each key its values in order, each
  written to the buffer as \<open>key=value\<close> after an \<open>&\<close> when the buffer is not empty.
\<close>

definition write_pair :: "string \<Rightarrow> string \<Rightarrow> string \<Rightarrow> string" where
  "write_pair keyEscaped buf x =
     (if length buf > 0 then buf @ ''&'' else buf) @ keyEscaped @ ''='' @ QueryEscape x"

definition Values_Encode :: "string list gomap \<Rightarrow> string" where
  "Values_Encode v =
     (case v of
        None \<Rightarrow> []
      | Some kvs \<Rightarrow>
          foldl (\<lambda>buf k. foldl (write_pair (QueryEscape k)) buf
                            (case map_of kvs k of None \<Rightarrow> [] | Some vs \<Rightarrow> vs))
            [] (sort (map fst kvs)))"

text \<open>\<open>validMethod\<close> of net/http: a non-empty string of token characters.\<close>

definition isTokenRune :: "char \<Rightarrow> bool" where
  "isTokenRune c = (isAlnum c \<or> c \<in> set (''!#$%&*+-.^_|~'' @ [CHR 0x27, CHR 0x60]))"

definition validMethod :: "string \<Rightarrow> bool" where
  "validMethod m = (length m > 0 \<and> list_all isTokenRune m)"

text \<open>
  \<open>http.NewRequest\<close>: the empty method means GET; an invalid method or a URL that does
  not parse is an error; the request made has an empty \<open>Header\<close> map and no \<open>Form\<close>
  map (\<open>Form\<close> is nil until \<open>ParseForm\<close> is called).
\<close>

definition http_NewRequest :: "'u env \<Rightarrow> string \<Rightarrow> string \<Rightarrow> string \<Rightarrow> error + 'u Request" where
  "http_NewRequest env m urlStr b =
     (let m = (if m = [] then ''GET'' else m) in
      if validMethod m then
        (case url_Parse env urlStr of
           Inl err \<Rightarrow> Inl err
         | Inr u \<Rightarrow>
             Inr \<lparr> req_Method = m, req_URL = u, req_Header = make_map, req_Form = None,
                   req_Body = b \<rparr>)
      else Inl (Error ''net/http: invalid method''))"

section \<open>Send\<close>

text \<open>
  The two nested loops of \<open>send\<close> (over the entries of a map of the builder, and over
  the values of an entry), adding each value with \<open>Add\<close>.
\<close>

fun add_values ::
  "(string list gomap \<Rightarrow> string \<Rightarrow> string \<Rightarrow> string list gomap outcome)
     \<Rightarrow> string list gomap \<Rightarrow> string \<Rightarrow> string list \<Rightarrow> string list gomap outcome" where
  "add_values Add m name [] = Return m"
| "add_values Add m name (x # xs) =
     (case Add m name x of Panic p \<Rightarrow> Panic p | Return m' \<Rightarrow> add_values Add m' name xs)"

fun add_entries ::
  "(string list gomap \<Rightarrow> string \<Rightarrow> string \<Rightarrow> string list gomap outcome)
     \<Rightarrow> string list gomap \<Rightarrow> (string \<times> string list) list \<Rightarrow> string list gomap outcome" where
  "add_entries Add m [] = Return m"
| "add_entries Add m ((name, xs) # entries) =
     (case add_values Add m name xs of
        Panic p \<Rightarrow> Panic p
      | Return m' \<Rightarrow> add_entries Add m' entries)"

text \<open>Lines 133 to 141: the query string of the request.\<close>

definition build_query :: "string list gomap \<Rightarrow> string list gomap outcome" where
  "build_query q = add_entries Values_Add make_map (map_range q)"

text \<open>
  Lines 128 to 158 of \<open>send\<close>: the request of one attempt.  \<open>Return (Inl err)\<close> is the
  early return of \<open>nil, err\<close>.
\<close>

definition assemble :: "'u env \<Rightarrow> 'r Client \<Rightarrow> (error + 'u Request) outcome" where
  "assemble env c =
     (case url_Parse env (url c) of
        Inl err \<Rightarrow> Return (Inl (errors_Wrap err ''url.Parse''))
      | Inr urlParsed \<Rightarrow>
          (case build_query (query c) of
             Panic p \<Rightarrow> Panic p
           | Return q \<Rightarrow>
               (case http_NewRequest env (method c)
                       (URL_String env (urlParsed\<lparr>RawQuery := Values_Encode q\<rparr>)) (body c) of
                  Inl err \<Rightarrow> Return (Inl (errors_Wrap err ''http.NewRequest''))
                | Inr req \<Rightarrow>
                    (case add_entries (Header_Add env) (req_Header req) (map_range (header c)) of
                       Panic p \<Rightarrow> Panic p
                     | Return h \<Rightarrow>
                         (case add_entries Values_Add (req_Form req) (map_range (form c)) of
                            Panic p \<Rightarrow> Panic p
                          | Return f \<Rightarrow> Return (Inr (req\<lparr>req_Header := h, req_Form := f\<rparr>)))))))"

text \<open>
  Lines 160 to 190: the round trip of one attempt, the \<open>n\<close>-th of the run, and the
  pair \<open>response, responseErr\<close> it leaves.
\<close>

definition roundtrip ::
  "'u env \<Rightarrow> 'r Client \<Rightarrow> nat \<Rightarrow> 'u Request \<Rightarrow> Response option \<times> error option" where
  "roundtrip env c n req =
     (case Client_Do env n (timeout c) req of
        Inl responseErr \<Rightarrow> (None, Some responseErr)
      | Inr res \<Rightarrow>
          (case ioutil_ReadAll (res_Body res) of
             (b, Some responseErr) \<Rightarrow> (None, Some responseErr)
           | (b, None) \<Rightarrow>
               (Some \<lparr> StatusCode = res_StatusCode res, Header = res_Header res, Body = b \<rparr>,
                None)))"

datatype 'u event =
  Transport "'u Request"
| RuleCall "Response option" "error option"
| Sleep int

text \<open>
  \<open>send\<close>, with the number \<open>n\<close> of round trips made before.  The result is what the
  call returns (or its panic) and the events of the call, in order.
\<close>

function send ::
  "'u env \<Rightarrow> 'r Client \<Rightarrow> nat \<Rightarrow> int
     \<Rightarrow> (Response option \<times> error option) outcome \<times> 'u event list" where
  "send env c n attempts =
     (case assemble env c of
        Panic p \<Rightarrow> (Panic p, [])
      | Return (Inl err) \<Rightarrow> (Return (None, Some err), [])
      | Return (Inr req) \<Rightarrow>
          (case roundtrip env c n req of
             (response, responseErr) \<Rightarrow>
               if attempts > 0 then
                 (case retryRuleF c of
                    None \<Rightarrow> (Panic NilFuncCall, [Transport req])
                  | Some ruleF \<Rightarrow>
                      if ruleF (Client_fields.truncate c) response responseErr then
                        (case send env c (Suc n) (attempts - 1) of
                           (r, evs) \<Rightarrow>
                             (r, [Transport req, RuleCall response responseErr,
                                  Sleep (retryDelay c)] @ evs))
                      else (Return (response, responseErr),
                            [Transport req, RuleCall response responseErr]))
               else (Return (response, responseErr), [Transport req])))"
  by pat_completeness auto
termination
  by (relation "measure (\<lambda>(env, c, n, attempts). nat attempts)") auto

declare send.simps [simp del]

definition Send ::
  "'u env \<Rightarrow> 'r Client \<Rightarrow> (Response option \<times> error option) outcome \<times> 'u event list" where
  "Send env c = send env c 0 (retryAttempts c)"

text \<open>What a list of events holds.\<close>

fun is_Transport :: "'u event \<Rightarrow> bool" where
  "is_Transport (Transport req) = True"
| "is_Transport (RuleCall response responseErr) = False"
| "is_Transport (Sleep d) = False"

fun is_RuleCall :: "'u event \<Rightarrow> bool" where
  "is_RuleCall (Transport req) = False"
| "is_RuleCall (RuleCall response responseErr) = True"
| "is_RuleCall (Sleep d) = False"

fun sleeps :: "'u event list \<Rightarrow> int list" where
  "sleeps [] = []"
| "sleeps (Sleep d # evs) = d # sleeps evs"
| "sleeps (Transport req # evs) = sleeps evs"
| "sleeps (RuleCall response responseErr # evs) = sleeps evs"

definition transport_calls :: "'u event list \<Rightarrow> nat" where
  "transport_calls evs = length (filter is_Transport evs)"

definition rule_calls :: "'u event list \<Rightarrow> nat" where
  "rule_calls evs = length (filter is_RuleCall evs)"

section \<open>The second builder, \<open>Rest\<close>\<close>

text \<open>
  The source declares the builder a second time under the name \<open>Rest\<close>, with
  \<open>Response\<close> and \<open>add\<close> declared again unchanged.  Its fields carry the suffix
  \<open>_R\<close> here; its \<open>send\<close> is embedded from lines 327 to 400.
\<close>

record 'r Rest_fields =
  method_R :: string
  url_R :: string
  timeout_R :: int
  retryAttempts_R :: int
  retryDelay_R :: int
  param_R :: "string gomap"
  query_R :: "string list gomap"
  header_R :: "string list gomap"
  form_R :: "string list gomap"
  body_R :: string
  records_R :: "'r option"

record 'r Rest = "'r Rest_fields" +
  retryRuleF_R :: "('r Rest_fields \<Rightarrow> Response option \<Rightarrow> error option \<Rightarrow> bool) option"

definition assemble_R :: "'u env \<Rightarrow> 'r Rest \<Rightarrow> (error + 'u Request) outcome" where
  "assemble_R env r =
     (case url_Parse env (url_R r) of
        Inl err \<Rightarrow> Return (Inl (errors_Wrap err ''url.Parse''))
      | Inr urlParsed \<Rightarrow>
          (case add_entries Values_Add make_map (map_range (query_R r)) of
             Panic p \<Rightarrow> Panic p
           | Return q \<Rightarrow>
               (case http_NewRequest env (method_R r)
                       (URL_String env (urlParsed\<lparr>RawQuery := Values_Encode q\<rparr>)) (body_R r) of
                  Inl err \<Rightarrow> Return (Inl (errors_Wrap err ''http.NewRequest''))
                | Inr req \<Rightarrow>
                    (case add_entries (Header_Add env) (req_Header req) (map_range (header_R r)) of
                       Panic p \<Rightarrow> Panic p
                     | Return h \<Rightarrow>
                         (case add_entries Values_Add (req_Form req) (map_range (form_R r)) of
                            Panic p \<Rightarrow> Panic p
                          | Return f \<Rightarrow> Return (Inr (req\<lparr>req_Header := h, req_Form := f\<rparr>)))))))"

definition roundtrip_R ::
  "'u env \<Rightarrow> 'r Rest \<Rightarrow> nat \<Rightarrow> 'u Request \<Rightarrow> Response option \<times> error option" where
  "roundtrip_R env r n req =
     (case Client_Do env n (timeout_R r) req of
        Inl responseErr \<Rightarrow> (None, Some responseErr)
      | Inr res \<Rightarrow>
          (case ioutil_ReadAll (res_Body res) of
             (b, Some responseErr) \<Rightarrow> (None, Some responseErr)
           | (b, None) \<Rightarrow>
               (Some \<lparr> StatusCode = res_StatusCode res, Header = res_Header res, Body = b \<rparr>,
                None)))"

function send_R ::
  "'u env \<Rightarrow> 'r Rest \<Rightarrow> nat \<Rightarrow> int
     \<Rightarrow> (Response option \<times> error option) outcome \<times> 'u event list" where
  "send_R env r n attempts =
     (case assemble_R env r of
        Panic p \<Rightarrow> (Panic p, [])
      | Return (Inl err) \<Rightarrow> (Return (None, Some err), [])
      | Return (Inr req) \<Rightarrow>
          (case roundtrip_R env r n req of
             (response, responseErr) \<Rightarrow>
               if attempts > 0 then
                 (case retryRuleF_R r of
                    None \<Rightarrow> (Panic NilFuncCall, [Transport req])
                  | Some ruleF \<Rightarrow>
                      if ruleF (Rest_fields.truncate r) response responseErr then
                        (case send_R env r (Suc n) (attempts - 1) of
                           (res, evs) \<Rightarrow>
                             (res, [Transport req, RuleCall response responseErr,
                                    Sleep (retryDelay_R r)] @ evs))
                      else (Return (response, responseErr),
                            [Transport req, RuleCall response responseErr]))
               else (Return (response, responseErr), [Transport req])))"
  by pat_completeness auto
termination
  by (relation "measure (\<lambda>(env, r, n, attempts). nat attempts)") auto

declare send_R.simps [simp del]

definition Send_R ::
  "'u env \<Rightarrow> 'r Rest \<Rightarrow> (Response option \<times> error option) outcome \<times> 'u event list" where
  "Send_R env r = send_R env r 0 (retryAttempts_R r)"

text \<open>The same configuration, read as a builder of the other type.\<close>

definition as_Rest_fields :: "('r, 'z) Client_fields_scheme \<Rightarrow> 'r Rest_fields" where
  "as_Rest_fields c =
     \<lparr> method_R = method c, url_R = url c, timeout_R = timeout c,
       retryAttempts_R = retryAttempts c, retryDelay_R = retryDelay c, param_R = param c,
       query_R = query c, header_R = header c, form_R = form c, body_R = body c,
       records_R = records c \<rparr>"

definition as_Client_fields :: "('r, 'z) Rest_fields_scheme \<Rightarrow> 'r Client_fields" where
  "as_Client_fields r =
     \<lparr> method = method_R r, url = url_R r, timeout = timeout_R r,
       retryAttempts = retryAttempts_R r, retryDelay = retryDelay_R r, param = param_R r,
       query = query_R r, header = header_R r, form = form_R r, body = body_R r,
       records = records_R r \<rparr>"

definition as_Rest :: "'r Client \<Rightarrow> 'r Rest" where
  "as_Rest c =
     Rest_fields.extend (as_Rest_fields c)
       \<lparr> retryRuleF_R = map_option (\<lambda>ruleF r. ruleF (as_Client_fields r)) (retryRuleF c) \<rparr>"

definition as_Client :: "'r Rest \<Rightarrow> 'r Client" where
  "as_Client r =
     Client_fields.extend (as_Client_fields r)
       \<lparr> retryRuleF = map_option (\<lambda>ruleF c. ruleF (as_Rest_fields c)) (retryRuleF_R r) \<rparr>"

section \<open>Notions the properties are stated with\<close>

text \<open>The fields of the builder, and the builders that agree outside some of them.\<close>

datatype field =
  F_method | F_url | F_timeout | F_retryAttempts | F_retryDelay | F_retryRuleF
| F_param | F_query | F_header | F_form | F_body | F_records

fun field_eq :: "field \<Rightarrow> 'r Client \<Rightarrow> 'r Client \<Rightarrow> bool" where
  "field_eq F_method c c' = (method c = method c')"
| "field_eq F_url c c' = (url c = url c')"
| "field_eq F_timeout c c' = (timeout c = timeout c')"
| "field_eq F_retryAttempts c c' = (retryAttempts c = retryAttempts c')"
| "field_eq F_retryDelay c c' = (retryDelay c = retryDelay c')"
| "field_eq F_retryRuleF c c' = (retryRuleF c = retryRuleF c')"
| "field_eq F_param c c' = (param c = param c')"
| "field_eq F_query c c' = (query c = query c')"
| "field_eq F_header c c' = (header c = header c')"
| "field_eq F_form c c' = (form c = form c')"
| "field_eq F_body c c' = (body c = body c')"
| "field_eq F_records c c' = (records c = records c')"

definition all_fields :: "field list" where
  "all_fields =
     [F_method, F_url, F_timeout, F_retryAttempts, F_retryDelay, F_retryRuleF,
      F_param, F_query, F_header, F_form, F_body, F_records]"

definition unchanged_except :: "field list \<Rightarrow> 'r Client \<Rightarrow> 'r Client \<Rightarrow> bool" where
  "unchanged_except fs c c' = list_all (\<lambda>f. f \<in> set fs \<or> field_eq f c c') all_fields"

text \<open>
  The query string as the specification words it: the keys in sorted order, each key
  with its values in the order they were supplied, as \<open>key=value\<close> pairs joined by
  \<open>&\<close>, keys and values percent-escaped.
\<close>

fun join_amp :: "string list \<Rightarrow> string" where
  "join_amp [] = []"
| "join_amp [p] = p"
| "join_amp (p # q # ps) = p @ ''&'' @ join_amp (q # ps)"

definition key_pairs :: "(string \<times> string list) list \<Rightarrow> string \<Rightarrow> string list" where
  "key_pairs kvs k =
     map (\<lambda>x. QueryEscape k @ ''='' @ QueryEscape x)
       (case map_of kvs k of None \<Rightarrow> [] | Some xs \<Rightarrow> xs)"

definition encoded_query :: "(string \<times> string list) list \<Rightarrow> string" where
  "encoded_query kvs = join_amp (concat (map (key_pairs kvs) (sort (map fst kvs))))"

section \<open>A stub of the library and the network\<close>

text \<open>
  For running the model on concrete builders: \<open>url.Parse\<close> rejects a leading colon
  (\<open>missing protocol scheme\<close>) as net/url does, and keeps any other string as it is;
  the transport fails its first \<open>k\<close> round trips and then answers 200 with the body
  \<open>ok\<close>.
\<close>

definition stub_env :: "nat \<Rightarrow> string env" where
  "stub_env k =
     \<lparr> url_Parse = (\<lambda>s.
         if take 1 s = '':'' then Inl (Error ''missing protocol scheme'')
         else Inr \<lparr> parts = s, RawQuery = [] \<rparr>),
       URL_String = (\<lambda>u. parts u @ (if RawQuery u = [] then [] else ''?'' @ RawQuery u)),
       CanonicalMIMEHeaderKey = (\<lambda>key. key),
       Client_Do = (\<lambda>n t req.
         if n < k then Inl (Error ''connection refused'')
         else Inr \<lparr> res_StatusCode = 200, res_Header = make_map, res_Body = (''ok'', None) \<rparr>) \<rparr>"

section \<open>Properties of the setters\<close>

lemma add_append:
  "add Sprint current vs = (case current of None \<Rightarrow> [] | Some xs \<Rightarrow> xs) @ map Sprint vs"
proof -
  have "foldl (\<lambda>cur v. cur @ [Sprint v]) acc vs = acc @ map Sprint vs" for acc
    by (induction vs arbitrary: acc) simp_all
  then show ?thesis by (simp add: add_def)
qed

text \<open>
  C10.  On the builder \<open>NewRest\<close> makes, \<open>AddQuery\<close>, \<open>AddHeader\<close>, \<open>AddForm\<close> and
  \<open>AddParam\<close> return for any key, the key now holding the values rendered as text, in
  the order of the arguments; on any builder whose map is not nil they return, with the
  rendered values appended to the values the key held before (for \<open>AddParam\<close>: the key
  set to the rendered value).  After the setter of the whole map was given the nil map,
  the call panics on the assignment to an entry of a nil map.
\<close>

theorem add_setters_total_or_panic:
  "AddQuery Sprint name vs (NewRest m u :: 'r Client)
     = Return ((NewRest m u)\<lparr>query := Some [(name, map Sprint vs)]\<rparr>)
   \<and> AddHeader Sprint name vs (NewRest m u :: 'r Client)
     = Return ((NewRest m u)\<lparr>header := Some [(name, map Sprint vs)]\<rparr>)
   \<and> AddForm Sprint name vs (NewRest m u :: 'r Client)
     = Return ((NewRest m u)\<lparr>form := Some [(name, map Sprint vs)]\<rparr>)
   \<and> AddParam Sprint name v (NewRest m u :: 'r Client)
     = Return ((NewRest m u)\<lparr>param := Some [(name, Sprint v)]\<rparr>)
   \<and> AddQuery Sprint name vs ((c :: 'r Client)\<lparr>query := Some kvs\<rparr>)
     = Return (c\<lparr>query := Some (AList.update name
         ((case map_of kvs name of None \<Rightarrow> [] | Some xs \<Rightarrow> xs) @ map Sprint vs) kvs)\<rparr>)
   \<and> AddHeader Sprint name vs (c\<lparr>header := Some kvs\<rparr>)
     = Return (c\<lparr>header := Some (AList.update name
         ((case map_of kvs name of None \<Rightarrow> [] | Some xs \<Rightarrow> xs) @ map Sprint vs) kvs)\<rparr>)
   \<and> AddForm Sprint name vs (c\<lparr>form := Some kvs\<rparr>)
     = Return (c\<lparr>form := Some (AList.update name
         ((case map_of kvs name of None \<Rightarrow> [] | Some xs \<Rightarrow> xs) @ map Sprint vs) kvs)\<rparr>)
   \<and> AddParam Sprint name v (c\<lparr>param := Some ps\<rparr>)
     = Return (c\<lparr>param := Some (AList.update name (Sprint v) ps)\<rparr>)
   \<and> AddQuery Sprint name vs (Query None c) = Panic NilMapAssignment
   \<and> AddHeader Sprint name vs (Header_set None c) = Panic NilMapAssignment
   \<and> AddForm Sprint name vs (Form None c) = Panic NilMapAssignment
   \<and> AddParam Sprint name v (Param None c) = Panic NilMapAssignment"
  by (simp add: AddQuery_def AddHeader_def AddForm_def AddParam_def NewRest_def make_map_def
      map_assign_def map_index_def add_append Query_def Header_set_def Form_def Param_def)

theorem add_setters_total_or_panic_example:
  "AddQuery (\<lambda>s. s) ''x'' [''a'', ''b''] (NewRest ''GET'' ''http://example.test/items'' :: unit Client)
     = Return ((NewRest ''GET'' ''http://example.test/items'')\<lparr>query := Some [(''x'', [''a'', ''b''])]\<rparr>)
   \<and> AddQuery (\<lambda>s. s) ''x'' [''a'']
        (Query None (NewRest ''GET'' ''http://example.test/items'' :: unit Client))
     = Panic NilMapAssignment"
  using add_setters_total_or_panic [where Sprint = "\<lambda>s. s" and name = "''x''" and vs = "[''a'', ''b'']"
      and m = "''GET''" and u = "''http://example.test/items''" and 'r = unit]
    add_setters_total_or_panic [where Sprint = "\<lambda>s. s" and name = "''x''" and vs = "[''a'']"
      and c = "NewRest ''GET'' ''http://example.test/items'' :: unit Client"]
  by simp

end
